theory Spec2Isabelle
  imports Complex_Main "HOL-Library.Log_Nat"
begin

section \<open>JavaScript numbers and values\<close>

text \<open>
  A JavaScript number is an IEEE 754 double: a finite value, one of the two infinities,
  or NaN. A finite double is the rational it denotes (the sign of zero, which nothing
  here observes, is left out). The type admits every rational; the values the code
  meets are doubles, and the arithmetic below rounds its results to doubles.
\<close>

datatype jsnum = Fin rat | PInf | NInf | NaN

text \<open>\<open>2\<close> to an integer power.\<close>

definition pow2 :: "int \<Rightarrow> rat" where
  "pow2 e = (if 0 \<le> e then 2 ^ nat e else 1 / 2 ^ nat (- e))"

text \<open>
  For \<open>0 < a\<close>, the integer \<open>k\<close> with \<open>2 ^ k \<le> a < 2 ^ (k + 1)\<close>. \<open>bitlen n\<close> is the number
  of binary digits of \<open>n\<close>.
\<close>

definition ilog2 :: "rat \<Rightarrow> int" where
  "ilog2 a = (if 1 \<le> a then bitlen \<lfloor>a\<rfloor> - 1 else - bitlen (\<lceil>1 / a\<rceil> - 1))"

text \<open>The nearest integer, a tie going to the even one.\<close>

definition round_half_even :: "rat \<Rightarrow> int" where
  "round_half_even q =
     (let f = \<lfloor>q\<rfloor>; d = q - of_int f
      in if d < 1 / 2 then f else if 1 / 2 < d then f + 1 else if even f then f else f + 1)"

text \<open>
  The double that an arithmetic operation returns when its exact result is \<open>x\<close>: round
  to nearest, ties to even. The finite doubles are the \<open>m * 2 ^ e\<close> with \<open>\<bar>m\<bar> < 2 ^ 53\<close>
  and \<open>- 1074 \<le> e \<le> 971\<close>. Around \<open>x\<close> they are \<open>2 ^ e\<close> apart, where \<open>e\<close> is 52 below the
  binary exponent of \<open>x\<close>, and \<open>- 1074\<close> for the subnormal \<open>x\<close> below \<open>2 ^ - 1022\<close>; \<open>x\<close> is
  rounded to a multiple \<open>m * 2 ^ e\<close>, with \<open>\<bar>m\<bar> \<le> 2 ^ 53\<close>. That multiple is \<open>2 ^ 1024\<close> or
  more, beyond the largest double, exactly when \<open>971 < e\<close>, or \<open>e = 971\<close> and \<open>\<bar>m\<bar> = 2 ^ 53\<close>:
  the result is then an infinity.
\<close>

definition round_double :: "rat \<Rightarrow> jsnum" where
  "round_double x =
     (if x = 0 then Fin 0
      else let e = max (ilog2 \<bar>x\<bar>) (- 1022) - 52;
               m = round_half_even (x / pow2 e)
           in if 971 < e \<or> (e = 971 \<and> \<bar>m\<bar> = 2 ^ 53) then (if 0 < x then PInf else NInf)
              else Fin (of_int m * pow2 e))"

text \<open>\<^verbatim>\<open>a + b\<close> on two numbers.\<close>

fun js_add :: "jsnum \<Rightarrow> jsnum \<Rightarrow> jsnum" where
  "js_add NaN _ = NaN"
| "js_add _ NaN = NaN"
| "js_add (Fin a) (Fin b) = round_double (a + b)"
| "js_add PInf NInf = NaN"
| "js_add NInf PInf = NaN"
| "js_add PInf _ = PInf"
| "js_add _ PInf = PInf"
| "js_add NInf _ = NInf"
| "js_add _ NInf = NInf"

text \<open>\<^verbatim>\<open>a >= b\<close> and \<^verbatim>\<open>a > b\<close> on two numbers: false as soon as one side is NaN.\<close>

fun js_ge :: "jsnum \<Rightarrow> jsnum \<Rightarrow> bool" where
  "js_ge NaN _ = False"
| "js_ge _ NaN = False"
| "js_ge (Fin a) (Fin b) = (b \<le> a)"
| "js_ge PInf _ = True"
| "js_ge _ NInf = True"
| "js_ge _ PInf = False"
| "js_ge NInf _ = False"

fun js_gt :: "jsnum \<Rightarrow> jsnum \<Rightarrow> bool" where
  "js_gt NaN _ = False"
| "js_gt _ NaN = False"
| "js_gt (Fin a) (Fin b) = (b < a)"
| "js_gt PInf PInf = False"
| "js_gt PInf _ = True"
| "js_gt NInf _ = False"
| "js_gt _ NInf = True"
| "js_gt _ PInf = False"

text \<open>\<^verbatim>\<open>Math.max(a, b)\<close> on two numbers: NaN if either is NaN, else the larger.\<close>

definition js_max :: "jsnum \<Rightarrow> jsnum \<Rightarrow> jsnum" where
  "js_max a b = (if a = NaN \<or> b = NaN then NaN else if js_ge a b then a else b)"

text \<open>
  \<^verbatim>\<open>a / n\<close> where \<open>n\<close> is the length of a non-empty array, a positive integer; the
  caller never divides by zero. The quotient is rounded as a sum is.
\<close>

fun js_div_length :: "jsnum \<Rightarrow> nat \<Rightarrow> jsnum" where
  "js_div_length (Fin a) n = round_double (a / of_nat n)"
| "js_div_length PInf n = PInf"
| "js_div_length NInf n = NInf"
| "js_div_length NaN n = NaN"

text \<open>
  The value of a \<^verbatim>\<open>severity\<close> property. \<open>JNum\<close> is a value whose \<^verbatim>\<open>typeof\<close> is
  \<^verbatim>\<open>'number'\<close>. \<open>JOther n t\<close> is any other value that the code can be handed
  (\<^verbatim>\<open>undefined\<close>, \<^verbatim>\<open>null\<close>, a boolean, a string, an array or object decoded from
  JSON), described by the only two observations the code makes of it: \<open>n\<close>, the number
  it is coerced to in a comparison or in \<^verbatim>\<open>Math.max\<close>, and \<open>t\<close>, whether it is truthy.
  So \<^verbatim>\<open>undefined\<close> is \<open>JOther NaN False\<close>, \<^verbatim>\<open>null\<close> is \<open>JOther (Fin 0) False\<close> and
  the string \<^verbatim>\<open>"3"\<close> is \<open>JOther (Fin 3) True\<close>.
\<close>

datatype jsval = JNum jsnum | JOther jsnum bool

fun is_number :: "jsval \<Rightarrow> bool" where
  "is_number (JNum _) = True"
| "is_number (JOther _ _) = False"

fun to_number :: "jsval \<Rightarrow> jsnum" where
  "to_number (JNum n) = n"
| "to_number (JOther n _) = n"

fun truthy :: "jsval \<Rightarrow> bool" where
  "truthy (JNum (Fin a)) = (a \<noteq> 0)"
| "truthy (JNum NaN) = False"
| "truthy (JNum _) = True"
| "truthy (JOther _ t) = t"

text \<open>\<^verbatim>\<open>v || 0\<close>\<close>

definition or_zero :: "jsval \<Rightarrow> jsval" where
  "or_zero v = (if truthy v then v else JNum (Fin 0))"

section \<open>Data model\<close>

text \<open>One entry of \<^verbatim>\<open>categoriesAnalysis\<close>: \<^verbatim>\<open>{ category, severity }\<close>.\<close>

record category_score =
  category :: string
  severity :: jsval

text \<open>\<^verbatim>\<open>config.moderation.thresholds\<close>\<close>

record thresholds =
  violence :: jsnum
  weapons :: jsnum
  hate :: jsnum
  selfHarm :: jsnum
  sexual :: jsnum
  child :: jsnum

text \<open>\<^verbatim>\<open>config.moderation.rules\<close>\<close>

record rules =
  childWithViolence :: bool
  childWithHate :: bool
  sexualWithChild :: bool
  weaponBonus :: jsnum
  violenceBonus :: jsnum

text \<open>The values written in the configuration file.\<close>

definition default_thresholds :: thresholds where
  "default_thresholds =
     \<lparr>violence = Fin 1, weapons = Fin 1, hate = Fin 1, selfHarm = Fin 1,
      sexual = Fin 3, child = Fin 1\<rparr>"

definition default_rules :: rules where
  "default_rules =
     \<lparr>childWithViolence = True, childWithHate = True, sexualWithChild = True,
      weaponBonus = Fin (1 / 2), violenceBonus = Fin (1 / 2)\<rparr>"

text \<open>
  The rejection reasons. The source's reasons are fixed French sentences (two of them
  with a score spliced in); each is one constructor here:
  \<^item> \<open>ChildDetected\<close>: \<^verbatim>\<open>ENFANT DETECTE - INTERDIT ABSOLU sur plateforme adulte\<close>
  \<^item> \<open>ViolenceDetected s\<close>: \<^verbatim>\<open>Violence detectee (score: s) - Seuil tres bas pour plateforme adulte\<close>
  \<^item> \<open>WeaponDetected s\<close>: \<^verbatim>\<open>Arme/symbole violent detecte (score: s) - Interdit\<close>
  \<^item> \<open>HateDetected\<close>: \<^verbatim>\<open>Contenu haineux detecte - Interdit\<close>
  \<^item> \<open>SelfHarmDetected\<close>: \<^verbatim>\<open>Contenu d'automutilation/suicide detecte - Interdit\<close>
  \<^item> \<open>SexualTooExplicit\<close>: \<^verbatim>\<open>Contenu sexuel trop explicite - Interdit\<close>
  \<^item> \<open>ChildWithViolence\<close>: \<^verbatim>\<open>Enfant avec violence/armes - REJET IMMEDIAT\<close>
  \<^item> \<open>ChildWithHate\<close>: \<^verbatim>\<open>Enfant avec contenu haineux - REJET IMMEDIAT\<close>
  \<^item> \<open>SexualWithChild\<close>: \<^verbatim>\<open>Contenu sexuel avec enfant - REJET IMMEDIAT\<close>
  \<^item> \<open>ServiceUnavailable\<close>:
    \<^verbatim>\<open>Service de moderation temporairement indisponible - Rejet par securite\<close>
  \<^item> \<open>InappropriateFrames\<close>: \<^verbatim>\<open>Contenu inapproprie detecte dans les frames video\<close>
  None of the sentences is empty, so every reason is truthy.
\<close>

datatype reason =
    ChildDetected
  | ViolenceDetected jsnum
  | WeaponDetected jsnum
  | HateDetected
  | SelfHarmDetected
  | SexualTooExplicit
  | ChildWithViolence
  | ChildWithHate
  | SexualWithChild
  | ServiceUnavailable
  | InappropriateFrames

text \<open>\<^verbatim>\<open>{ rejected, reason }\<close>, with \<open>None\<close> for \<^verbatim>\<open>null\<close>.\<close>

record rule_outcome =
  rejected :: bool
  reason :: "reason option"

text \<open>\<^verbatim>\<open>{ weaponScore, violenceScore }\<close>\<close>

record scores =
  weaponScore :: jsnum
  violenceScore :: jsnum

section \<open>Score calculation\<close>

text \<open>
  One iteration of the loop of \<^verbatim>\<open>_detectWeaponsAndViolence\<close> over the pair
  \<open>(weaponScore, violenceScore)\<close>: the four \<^verbatim>\<open>if\<close> statements in the source's order.
\<close>

definition detect_step :: "category_score \<Rightarrow> jsnum \<times> jsnum \<Rightarrow> jsnum \<times> jsnum" where
  "detect_step cat acc =
     (let (w0, v0) = acc;
          v1 = (if category cat = ''Violence''
                then js_max v0 (to_number (or_zero (severity cat))) else v0);
          w1 = (if category cat = ''Hate'' \<and> js_ge (to_number (severity cat)) (Fin 1)
                then js_max w0 (to_number (or_zero (severity cat))) else w0);
          w2 = (if category cat = ''SelfHarm'' \<and> js_ge (to_number (severity cat)) (Fin 1)
                then js_max w1 (to_number (or_zero (severity cat))) else w1);
          v2 = (if category cat = ''Sexual'' \<and> js_ge (to_number (severity cat)) (Fin 3)
                then js_max v1 (Fin 1) else v1)
      in (w2, v2))"

definition detectWeaponsAndViolence :: "rules \<Rightarrow> category_score list \<Rightarrow> scores" where
  "detectWeaponsAndViolence rl cats =
     (let (w, v) = fold detect_step cats (Fin 0, Fin 0);
          v' = (if js_gt v (Fin 0) then js_add v (violenceBonus rl) else v);
          w' = (if js_gt w (Fin 0) then js_add w (weaponBonus rl) else w)
      in \<lparr>weaponScore = w', violenceScore = v'\<rparr>)"

text \<open>
  \<^verbatim>\<open>_calculateAIScore\<close>. The argument is an array here, so \<^verbatim>\<open>Array.isArray\<close> holds;
  the reduction adds each entry's contribution to the accumulator from the left.
\<close>

definition contribution :: "category_score \<Rightarrow> jsnum" where
  "contribution c = (if is_number (severity c) then to_number (severity c) else Fin 0)"

definition calculateAIScore :: "category_score list \<Rightarrow> jsnum" where
  "calculateAIScore cats =
     (if cats = [] then Fin 0
      else let sum = fold (\<lambda>c acc. js_add acc (contribution c)) cats (Fin 0);
               mean = js_div_length sum (length cats)
           in if mean \<noteq> NaN then mean else Fin 0)"

section \<open>Rule evaluation\<close>

text \<open>
  \<^verbatim>\<open>categories.some(c => c.category === name && c.severity >= bound)\<close>, the shape of every
  per-category condition of the source.
\<close>

definition some_at_least :: "string \<Rightarrow> jsnum \<Rightarrow> category_score list \<Rightarrow> bool" where
  "some_at_least name bound cats =
     list_ex (\<lambda>c. category c = name \<and> js_ge (to_number (severity c)) bound) cats"

text \<open>
  The rule list of \<^verbatim>\<open>_applyModerationRules\<close>: the six baseline rules, then each compound
  rule whose flag is set. A rule is its condition's value and its reason; the conditions
  have no effect, so evaluating all of them changes nothing.
\<close>

definition rule_list :: "thresholds \<Rightarrow> rules \<Rightarrow> category_score list \<Rightarrow> (bool \<times> reason) list" where
  "rule_list th rl cats =
     (let sc = detectWeaponsAndViolence rl cats;
          ws = weaponScore sc;
          vs = violenceScore sc
      in [(some_at_least ''Child'' (child th) cats, ChildDetected),
          (js_ge vs (violence th), ViolenceDetected vs),
          (js_ge ws (weapons th), WeaponDetected ws),
          (some_at_least ''Hate'' (hate th) cats, HateDetected),
          (some_at_least ''SelfHarm'' (selfHarm th) cats, SelfHarmDetected),
          (some_at_least ''Sexual'' (sexual th) cats, SexualTooExplicit)]
         @ (if childWithViolence rl
            then [(some_at_least ''Child'' (child th) cats
                   \<and> (js_ge vs (violence th) \<or> js_ge ws (weapons th)), ChildWithViolence)]
            else [])
         @ (if childWithHate rl
            then [(some_at_least ''Child'' (child th) cats
                   \<and> some_at_least ''Hate'' (hate th) cats, ChildWithHate)]
            else [])
         @ (if sexualWithChild rl
            then [(some_at_least ''Sexual'' (Fin 2) cats
                   \<and> some_at_least ''Child'' (child th) cats, SexualWithChild)]
            else []))"

text \<open>The loop over the rules: the first rule whose condition holds decides.\<close>

definition applyModerationRules :: "thresholds \<Rightarrow> rules \<Rightarrow> category_score list \<Rightarrow> rule_outcome" where
  "applyModerationRules th rl cats =
     (case find fst (rule_list th rl cats) of
        Some rule \<Rightarrow> \<lparr>rejected = True, reason = Some (snd rule)\<rparr>
      | None \<Rightarrow> \<lparr>rejected = False, reason = None\<rparr>)"

section \<open>The classifier call\<close>

datatype verdict = Accepted | Rejected

text \<open>
  The object returned to the caller:
  \<^verbatim>\<open>{ verdict, categories, rejectionReason, ai_score }\<close>. \<open>None\<close> stands for a
  \<^verbatim>\<open>rejectionReason\<close> that is \<^verbatim>\<open>null\<close> or not set.
\<close>

record moderation_result =
  verdict :: verdict
  categories :: "category_score list"
  rejectionReason :: "reason option"
  ai_score :: jsnum

text \<open>
  What one \<^verbatim>\<open>circuitBreaker.fire(buffer)\<close> meets. The breaker and the HTTP client are
  libraries, and the classifier is a remote service: their behaviour is the environment
  of the model, a function from its own state and the buffer to what happened.
  \<^item> \<open>ShortCircuited\<close>: the breaker is open and rejects without calling;
  \<^item> \<open>TimedOut\<close>: the call outlived the breaker's timeout;
  \<^item> \<open>Ran NoReply\<close>: \<^verbatim>\<open>axios.post\<close> had no response (network error, request timeout);
  \<^item> \<open>Ran (Reply status body)\<close>: a response arrived.
  The body \<^verbatim>\<open>response.data\<close> is \<open>NoData\<close> when it is \<^verbatim>\<open>null\<close> or \<^verbatim>\<open>undefined\<close>, so
  that reading a property of it throws. Otherwise its \<^verbatim>\<open>categoriesAnalysis\<close> is one of:
  \<^item> \<open>Absent\<close>: missing or another falsy value, which \<^verbatim>\<open>|| []\<close> replaces by the empty
    array;
  \<^item> \<open>Entries\<close>: an array with no \<^verbatim>\<open>null\<close> or \<^verbatim>\<open>undefined\<close> element. The code reads the
    \<^verbatim>\<open>category\<close> and the \<^verbatim>\<open>severity\<close> of each element and nothing else. An element
    without a \<^verbatim>\<open>category\<close> that is a string (a number, a string, an object of another
    shape) is an entry whose category is a name no rule mentions, and an element without
    a \<^verbatim>\<open>severity\<close> has the severity \<open>JOther NaN False\<close>: the array \<^verbatim>\<open>[7, "x"]\<close> is two
    such entries, and does not throw;
  \<^item> \<open>Unusable\<close>: a truthy value that is not an array (a string, a number, \<^verbatim>\<open>true\<close>, an
    object), for which the loop or the call of \<^verbatim>\<open>some\<close> throws a TypeError, or an array
    with a \<^verbatim>\<open>null\<close> or \<^verbatim>\<open>undefined\<close> element, whose \<^verbatim>\<open>category\<close> cannot be read.
\<close>

datatype error = CircuitOpen | BreakerTimeout | RequestFailed | AzureApiError nat | TypeError

datatype analysis = Absent | Entries "category_score list" | Unusable

datatype response_data = NoData | Data analysis

datatype reply = NoReply | Reply nat response_data

datatype breaker_outcome = ShortCircuited | TimedOut | Ran reply

type_synonym ('s, 'b) upstream = "'s \<Rightarrow> 'b \<Rightarrow> breaker_outcome \<times> 's"

text \<open>
  \<^verbatim>\<open>_callAzureAPI\<close> from the reply on. \<^verbatim>\<open>validateStatus\<close> makes the client throw for a
  status of 500 and above; the code throws for every other status but 200. \<open>analysed\<close>
  is the end of the function, from the category list to the object returned.
\<close>

definition analysed :: "thresholds \<Rightarrow> rules \<Rightarrow> category_score list \<Rightarrow> moderation_result" where
  "analysed th rl cats =
     (let moderationResult = applyModerationRules th rl cats
      in \<lparr>verdict = (if rejected moderationResult then Rejected else Accepted),
          categories = cats,
          rejectionReason = reason moderationResult,
          ai_score = calculateAIScore cats\<rparr>)"

definition callAzureAPI :: "thresholds \<Rightarrow> rules \<Rightarrow> reply \<Rightarrow> error + moderation_result" where
  "callAzureAPI th rl rp =
     (case rp of
        NoReply \<Rightarrow> Inl RequestFailed
      | Reply status body \<Rightarrow>
          if \<not> status < 500 then Inl RequestFailed
          else if status \<noteq> 200 then Inl (AzureApiError status)
          else (case body of
                  NoData \<Rightarrow> Inl TypeError
                | Data Absent \<Rightarrow> Inr (analysed th rl [])
                | Data (Entries cats) \<Rightarrow> Inr (analysed th rl cats)
                | Data Unusable \<Rightarrow> Inl TypeError))"

text \<open>\<^verbatim>\<open>circuitBreaker.fire\<close>: no fallback function is registered, so a failure is thrown.\<close>

definition fire ::
  "('s, 'b) upstream \<Rightarrow> thresholds \<Rightarrow> rules \<Rightarrow> 's \<Rightarrow> 'b \<Rightarrow> (error + moderation_result) \<times> 's" where
  "fire up th rl s buffer =
     (case up s buffer of
        (ShortCircuited, s') \<Rightarrow> (Inl CircuitOpen, s')
      | (TimedOut, s') \<Rightarrow> (Inl BreakerTimeout, s')
      | (Ran rp, s') \<Rightarrow> (callAzureAPI th rl rp, s'))"

definition fallbackModeration :: "error \<Rightarrow> moderation_result" where
  "fallbackModeration e =
     \<lparr>verdict = Rejected, categories = [], rejectionReason = Some ServiceUnavailable,
      ai_score = Fin 0\<rparr>"

text \<open>\<^verbatim>\<open>moderateImage\<close>: the \<^verbatim>\<open>try\<close> returns the result, the \<^verbatim>\<open>catch\<close> the fallback.\<close>

definition moderateImage ::
  "('s, 'b) upstream \<Rightarrow> thresholds \<Rightarrow> rules \<Rightarrow> 's \<Rightarrow> 'b \<Rightarrow> moderation_result \<times> 's" where
  "moderateImage up th rl s buffer =
     (case fire up th rl s buffer of
        (Inr result, s') \<Rightarrow> (result, s')
      | (Inl e, s') \<Rightarrow> (fallbackModeration e, s'))"

section \<open>Video moderation\<close>

text \<open>
  The loop of \<^verbatim>\<open>moderateVideo\<close>. It returns the \<^verbatim>\<open>results\<close> array, or the error that
  left the loop; the calls made of \<^verbatim>\<open>circuitBreaker.fire\<close>, each with its thumbnail and
  what it gave, in the order they were made; and the environment's state.
\<close>

fun moderate_frames ::
  "('s, 'b) upstream \<Rightarrow> thresholds \<Rightarrow> rules \<Rightarrow> 's \<Rightarrow> 'b list \<Rightarrow>
     (error + moderation_result list) \<times> ('b \<times> (error + moderation_result)) list \<times> 's" where
  "moderate_frames up th rl s [] = (Inr [], [], s)"
| "moderate_frames up th rl s (thumbnail # rest) =
     (case fire up th rl s thumbnail of
        (Inl e, s1) \<Rightarrow> (Inl e, [(thumbnail, Inl e)], s1)
      | (Inr result, s1) \<Rightarrow>
          if verdict result = Rejected
          then (Inr [result], [(thumbnail, Inr result)], s1)
          else (case moderate_frames up th rl s1 rest of
                  (Inl e, calls, s2) \<Rightarrow> (Inl e, (thumbnail, Inr result) # calls, s2)
                | (Inr results, calls, s2) \<Rightarrow>
                    (Inr (result # results), (thumbnail, Inr result) # calls, s2)))"

text \<open>
  \<^verbatim>\<open>_calculateVideoVerdict\<close>. \<^verbatim>\<open>anyRejected\<close> holds exactly when \<^verbatim>\<open>find\<close> gives a
  result, so the test and the search are one \<open>case\<close>. The accepted object has no
  \<^verbatim>\<open>rejectionReason\<close>.
\<close>

definition calculateVideoVerdict :: "moderation_result list \<Rightarrow> moderation_result" where
  "calculateVideoVerdict results =
     (let allCategories = concat (map categories results)
      in case find (\<lambda>r. verdict r = Rejected) results of
           Some rejectedResult \<Rightarrow>
             \<lparr>verdict = Rejected,
              categories = allCategories,
              rejectionReason = (case rejectionReason rejectedResult of
                                   Some text \<Rightarrow> Some text
                                 | None \<Rightarrow> Some InappropriateFrames),
              ai_score = calculateAIScore allCategories\<rparr>
         | None \<Rightarrow>
             \<lparr>verdict = Accepted,
              categories = allCategories,
              rejectionReason = None,
              ai_score = calculateAIScore allCategories\<rparr>)"

text \<open>\<^verbatim>\<open>moderateVideo\<close>: the verdict, the calls made, and the environment's state.\<close>

definition moderateVideo ::
  "('s, 'b) upstream \<Rightarrow> thresholds \<Rightarrow> rules \<Rightarrow> 's \<Rightarrow> 'b list \<Rightarrow>
     moderation_result \<times> ('b \<times> (error + moderation_result)) list \<times> 's" where
  "moderateVideo up th rl s thumbnails =
     (case moderate_frames up th rl s thumbnails of
        (Inr results, calls, s') \<Rightarrow> (calculateVideoVerdict results, calls, s')
      | (Inl e, calls, s') \<Rightarrow> (fallbackModeration e, calls, s'))"

section \<open>The specification's wording\<close>

text \<open>
  The severity of an entry as a rational: the number itself when the severity is a
  finite number, 0 otherwise.
\<close>

definition fin_severity :: "category_score \<Rightarrow> rat" where
  "fin_severity c = (case severity c of JNum (Fin x) \<Rightarrow> x | _ \<Rightarrow> 0)"

definition finite_if_number :: "category_score \<Rightarrow> bool" where
  "finite_if_number c = (case severity c of JNum (Fin x) \<Rightarrow> True | JNum _ \<Rightarrow> False | _ \<Rightarrow> True)"

definition not_negative :: "category_score \<Rightarrow> bool" where
  "not_negative c = (case severity c of JNum n \<Rightarrow> \<not> js_gt (Fin 0) n | _ \<Rightarrow> True)"

definition finite_number :: "category_score \<Rightarrow> bool" where
  "finite_number c = (case severity c of JNum (Fin x) \<Rightarrow> True | _ \<Rightarrow> False)"

text \<open>The arithmetic mean of the severities, an entry without a number counting as 0.\<close>

definition arithmetic_mean :: "category_score list \<Rightarrow> rat" where
  "arithmetic_mean cats = sum_list (map fin_severity cats) / of_nat (length cats)"

text \<open>A rational is a double when rounding leaves it as it is.\<close>

definition is_double :: "rat \<Rightarrow> bool" where
  "is_double x \<longleftrightarrow> round_double x = Fin x"

text \<open>
  Adding the numbers of a list to \<open>a\<close> one after the other never rounds: every sum on
  the way is a double.
\<close>

fun sums_exact :: "rat \<Rightarrow> rat list \<Rightarrow> bool" where
  "sums_exact a [] = True"
| "sums_exact a (x # xs) = (is_double (a + x) \<and> sums_exact (a + x) xs)"

text \<open>
  The mean of a list of numbers in double arithmetic: the numbers added to 0 from the
  left, the sum divided by their count.
\<close>

definition double_mean :: "jsnum list \<Rightarrow> jsnum" where
  "double_mean xs = js_div_length (foldl js_add (Fin 0) xs) (length xs)"

text \<open>The threshold configured for a category, by the category's name.\<close>

definition own_threshold :: "thresholds \<Rightarrow> string \<Rightarrow> jsnum option" where
  "own_threshold th name =
     (if name = ''Violence'' then Some (violence th)
      else if name = ''Weapons'' then Some (weapons th)
      else if name = ''Hate'' then Some (hate th)
      else if name = ''SelfHarm'' then Some (selfHarm th)
      else if name = ''Sexual'' then Some (sexual th)
      else if name = ''Child'' then Some (child th)
      else None)"

definition meets_own_threshold :: "thresholds \<Rightarrow> category_score \<Rightarrow> bool" where
  "meets_own_threshold th c =
     (case own_threshold th (category c) of
        Some bound \<Rightarrow> js_ge (to_number (severity c)) bound
      | None \<Rightarrow> False)"

text \<open>An enabled compound rule holds: one of the rules after the six baseline rules.\<close>

definition compound_rule_satisfied :: "thresholds \<Rightarrow> rules \<Rightarrow> category_score list \<Rightarrow> bool" where
  "compound_rule_satisfied th rl cats = list_ex fst (drop 6 (rule_list th rl cats))"

text \<open>
  The entries whose severity \<^verbatim>\<open>_detectWeaponsAndViolence\<close> reads, and the lists in which
  each of them has a finite number as its severity.
\<close>

definition scored_category :: "category_score \<Rightarrow> bool" where
  "scored_category c \<longleftrightarrow>
     category c = ''Violence'' \<or> category c = ''Hate'' \<or> category c = ''SelfHarm''
     \<or> category c = ''Sexual''"

definition scored_entries_finite :: "category_score list \<Rightarrow> bool" where
  "scored_entries_finite cats = list_all finite_number (filter scored_category cats)"

text \<open>
  The largest severity among the entries that satisfy \<open>P\<close>, as the specification words
  it; 0 when no entry satisfies \<open>P\<close>.
\<close>

definition max_among :: "(category_score \<Rightarrow> bool) \<Rightarrow> category_score list \<Rightarrow> rat" where
  "max_among P cats =
     (if filter P cats = [] then 0 else Max (set (map fin_severity (filter P cats))))"

text \<open>
  The largest of 0 and the severities of the entries that satisfy \<open>P\<close>, as the code
  computes it from a score that starts at 0.
\<close>

definition max_severity_where :: "(category_score \<Rightarrow> bool) \<Rightarrow> category_score list \<Rightarrow> rat" where
  "max_severity_where P cats = Max (set (0 # map fin_severity (filter P cats)))"

definition explicit_sexual :: "category_score list \<Rightarrow> bool" where
  "explicit_sexual cats = list_ex (\<lambda>c. category c = ''Sexual'' \<and> 3 \<le> fin_severity c) cats"

definition weapon_proxy :: "category_score \<Rightarrow> bool" where
  "weapon_proxy c \<longleftrightarrow>
     (category c = ''Hate'' \<or> category c = ''SelfHarm'') \<and> 1 \<le> fin_severity c"

text \<open>The bonus, added in double arithmetic to a score that is not 0.\<close>

definition with_bonus :: "jsnum \<Rightarrow> rat \<Rightarrow> jsnum" where
  "with_bonus bonus x = (if x \<noteq> 0 then js_add (Fin x) bonus else Fin x)"

text \<open>
  The violence score before the bonus, as the specification words it: the largest
  Violence severity, plus 1 if a Sexual entry has severity 3 or more.
\<close>

definition violence_plus_one :: "category_score list \<Rightarrow> rat" where
  "violence_plus_one cats =
     max_among (\<lambda>c. category c = ''Violence'') cats
       + (if explicit_sexual cats then 1 else 0)"

text \<open>
  The violence score before the bonus, as the code computes it: the largest of 0 and
  the Violence severities, raised to 1 if a Sexual entry has severity 3 or more.
\<close>

definition violence_at_least_one :: "category_score list \<Rightarrow> rat" where
  "violence_at_least_one cats =
     max (max_severity_where (\<lambda>c. category c = ''Violence'') cats)
         (if explicit_sexual cats then 1 else 0)"

text \<open>
  The weapon score before the bonus: the largest severity among the Hate and SelfHarm
  entries of severity 1 or more, 0 when there is none.
\<close>

definition weapon_base :: "category_score list \<Rightarrow> rat" where
  "weapon_base cats = max_severity_where weapon_proxy cats"




section \<open>Auxiliary definitions\<close>

text \<open>
  The two halves of one loop iteration of \<^verbatim>\<open>_detectWeaponsAndViolence\<close> on finite
  numbers, used in the proofs about the scores.
\<close>

definition weapon_step :: "category_score \<Rightarrow> rat \<Rightarrow> rat" where
  "weapon_step c w = (if weapon_proxy c then max w (fin_severity c) else w)"

definition violence_step :: "category_score \<Rightarrow> rat \<Rightarrow> rat" where
  "violence_step c v =
     (if category c = ''Violence'' then max v (fin_severity c)
      else if category c = ''Sexual'' \<and> 3 \<le> fin_severity c then max v 1 else v)"



section \<open>Rounding: properties\<close>

lemma round_double_not_NaN: "round_double x \<noteq> NaN"
  by (simp add: round_double_def Let_def)

lemma round_half_even_nonneg: "0 \<le> q \<Longrightarrow> 0 \<le> round_half_even q"
  by (simp add: round_half_even_def Let_def)

lemma pow2_pos: "0 < pow2 e"
  by (simp add: pow2_def)

lemma round_double_not_below_zero: "0 \<le> x \<Longrightarrow> \<not> js_gt (Fin 0) (round_double x)"
  by (simp add: round_double_def Let_def not_less round_half_even_nonneg pow2_pos
      less_imp_le)


text \<open>The small numbers of the examples below are doubles.\<close>

lemma round_double_values:
  "round_double 1 = Fin 1"
  "round_double 2 = Fin 2"
  "round_double 4 = Fin 4"
  "round_double 6 = Fin 6"
  "round_double (- 1) = Fin (- 1)"
  "round_double (1 / 2) = Fin (1 / 2)"
  "round_double (3 / 2) = Fin (3 / 2)"
  "round_double (5 / 2) = Fin (5 / 2)"
  "round_double (9 / 2) = Fin (9 / 2)"
  "round_double (11 / 2) = Fin (11 / 2)"
  "round_double (- (1 / 2)) = Fin (- (1 / 2))"
  by code_simp+

text \<open>
  Rounding at work: 0.1 and 2/3 are not doubles; \<open>2 ^ 53 + 1\<close> lies halfway between two
  doubles and goes to the even one; \<open>5/4 - 2 ^ - 53\<close> rounds to 1.25.
\<close>

lemma round_double_examples:
  "round_double (1 / 10) = Fin (3602879701896397 / 36028797018963968)"
  "round_double (2 / 3) = Fin (6004799503160661 / 9007199254740992)"
  "round_double 9007199254740993 = Fin 9007199254740992"
  "round_double 9007199254740995 = Fin 9007199254740996"
  "round_double (11258999068426239 / 9007199254740992) = Fin (5 / 4)"
  by code_simp+

lemma ilog2_ge:
  assumes "2 ^ n \<le> x"
  shows "int n \<le> ilog2 x"
proof -
  have one: "1 \<le> x" using assms by (meson one_le_numeral one_le_power order_trans)
  have "of_int ((2::int) ^ n) \<le> x" using assms by simp
  then have "(2::int) ^ n \<le> \<lfloor>x\<rfloor>" by (simp only: le_floor_iff)
  moreover have "nat (int n + 1) - 1 = n" by simp
  ultimately have "int n + 1 \<le> bitlen \<lfloor>x\<rfloor>"
    by (simp only: bitlen_ge_iff_power) simp
  then show ?thesis using one by (simp add: ilog2_def)
qed

lemma round_double_overflow:
  assumes "2 ^ 1024 \<le> x"
  shows "round_double x = PInf"
proof -
  have pos: "0 < x" using assms by (meson less_le_trans zero_less_numeral zero_less_power)
  have "int 1024 \<le> ilog2 x" using assms by (rule ilog2_ge)
  then have "1023 < ilog2 x" by simp
  then show ?thesis using pos by (simp add: round_double_def Let_def)
qed

lemma ilog2_power2: "ilog2 (2 ^ n) = int n"
proof -
  have "\<lfloor>(2::rat) ^ n\<rfloor> = 2 ^ n"
    by (metis floor_of_int of_int_numeral of_int_power)
  moreover have "bitlen (2 ^ n) = int n + 1"
    using bitlen_twopow_add_eq [of 0 n] by simp
  ultimately show ?thesis by (simp add: ilog2_def)
qed

lemma round_half_even_of_int: "round_half_even (of_int k) = k"
  by (simp add: round_half_even_def)

lemma round_double_power2:
  assumes "52 \<le> n" and "n \<le> 1023"
  shows "round_double (2 ^ n) = Fin (2 ^ n)"
proof -
  have e: "max (ilog2 \<bar>(2::rat) ^ n\<bar>) (- 1022) - 52 = int (n - 52)"
    using assms by (simp add: ilog2_power2)
  have p: "pow2 (int (n - 52)) = 2 ^ (n - 52)"
    by (simp add: pow2_def)
  have "(2::rat) ^ n = 2 ^ (52 + (n - 52))"
    using assms by simp
  also have "\<dots> = 2 ^ 52 * 2 ^ (n - 52)"
    by (rule power_add)
  finally have split: "(2::rat) ^ n = 2 ^ 52 * 2 ^ (n - 52)" .
  have q: "(2::rat) ^ n / 2 ^ (n - 52) = of_int (2 ^ 52)"
    by (subst split) simp
  have m: "round_half_even ((2::rat) ^ n / 2 ^ (n - 52)) = 2 ^ 52"
    unfolding q by (rule round_half_even_of_int)
  show ?thesis
    unfolding round_double_def e p Let_def m
    using assms split by simp
qed

section \<open>Rule evaluation: properties\<close>

lemma some_at_least_iff:
  "some_at_least name bound cats \<longleftrightarrow>
     (\<exists>c \<in> set cats. category c = name \<and> js_ge (to_number (severity c)) bound)"
  by (simp add: some_at_least_def list_ex_iff)

text \<open>
  C1. A list that holds a Child entry whose severity is at least the child threshold is
  rejected, whatever else the list holds and whatever the thresholds and flags are; the
  reason is the Child reason.
\<close>

theorem child_entry_always_rejected:
  assumes "c \<in> set cats"
    and "category c = ''Child''"
    and "js_ge (to_number (severity c)) (child th)"
  shows "rejected (applyModerationRules th rl cats)
    \<and> reason (applyModerationRules th rl cats) = Some ChildDetected"
proof -
  from assms have hit: "some_at_least ''Child'' (child th) cats"
    unfolding some_at_least_iff by blast
  obtain rest where "rule_list th rl cats = (True, ChildDetected) # rest"
    using hit by (simp add: rule_list_def Let_def)
  then show ?thesis
    by (simp add: applyModerationRules_def)
qed

theorem child_entry_always_rejected_witness:
  "rejected (applyModerationRules default_thresholds default_rules
     [\<lparr>category = ''Sexual'', severity = JNum (Fin 0)\<rparr>,
      \<lparr>category = ''Child'', severity = JNum (Fin 1)\<rparr>])
   \<and> reason (applyModerationRules default_thresholds default_rules
     [\<lparr>category = ''Sexual'', severity = JNum (Fin 0)\<rparr>,
      \<lparr>category = ''Child'', severity = JNum (Fin 1)\<rparr>]) = Some ChildDetected"
  by (rule child_entry_always_rejected
        [where c = "\<lparr>category = ''Child'', severity = JNum (Fin 1)\<rparr>"])
     (simp_all add: default_thresholds_def)

text \<open>
  Every compound rule asks for the Child condition, which is the first baseline rule:
  no evaluation ever returns a compound reason.
\<close>

lemma compound_reasons_unreachable:
  "reason (applyModerationRules th rl cats) \<noteq> Some ChildWithViolence
   \<and> reason (applyModerationRules th rl cats) \<noteq> Some ChildWithHate
   \<and> reason (applyModerationRules th rl cats) \<noteq> Some SexualWithChild"
  by (simp add: applyModerationRules_def rule_list_def Let_def)

text \<open>
  C2, as the code has it. With the child-with-hate rule enabled and the child and hate
  thresholds at 1, the list of a Child entry of severity 1 and a Hate entry of severity 1
  is rejected with the plain Child reason: the Child rule comes first and the first
  match decides.
\<close>

theorem child_with_hate_reports_child:
  assumes "child th = Fin 1" and "hate th = Fin 1" and "childWithHate rl"
  shows "applyModerationRules th rl
           [\<lparr>category = ''Child'', severity = JNum (Fin 1)\<rparr>,
            \<lparr>category = ''Hate'', severity = JNum (Fin 1)\<rparr>]
         = \<lparr>rejected = True, reason = Some ChildDetected\<rparr>"
  using assms by (simp add: applyModerationRules_def rule_list_def Let_def some_at_least_def)

theorem child_with_hate_reports_child_witness:
  "applyModerationRules default_thresholds default_rules
           [\<lparr>category = ''Child'', severity = JNum (Fin 1)\<rparr>,
            \<lparr>category = ''Hate'', severity = JNum (Fin 1)\<rparr>]
         = \<lparr>rejected = True, reason = Some ChildDetected\<rparr>"
  by (rule child_with_hate_reports_child)
     (simp_all add: default_thresholds_def default_rules_def)

text \<open>
  C2 as stated fails: on that list, with the configured thresholds and all compound
  rules enabled, the outcome is a rejection whose reason is not the compound one.
\<close>

theorem compound_reason_counterexample:
  "childWithHate default_rules
   \<and> child default_thresholds = Fin 1 \<and> hate default_thresholds = Fin 1
   \<and> rejected (applyModerationRules default_thresholds default_rules
        [\<lparr>category = ''Child'', severity = JNum (Fin 1)\<rparr>,
         \<lparr>category = ''Hate'', severity = JNum (Fin 1)\<rparr>])
   \<and> reason (applyModerationRules default_thresholds default_rules
        [\<lparr>category = ''Child'', severity = JNum (Fin 1)\<rparr>,
         \<lparr>category = ''Hate'', severity = JNum (Fin 1)\<rparr>]) \<noteq> Some ChildWithHate"
  by (simp add: applyModerationRules_def rule_list_def Let_def some_at_least_def
      default_thresholds_def default_rules_def)

lemma detect_sexual3:
  "detectWeaponsAndViolence rl [\<lparr>category = ''Sexual'', severity = JNum (Fin 3)\<rparr>]
   = \<lparr>weaponScore = Fin 0, violenceScore = js_add (Fin 1) (violenceBonus rl)\<rparr>"
  by (simp add: detectWeaponsAndViolence_def detect_step_def js_max_def)

text \<open>
  C3, as the code has it. With the configured thresholds (sexual 3, all others 1) and a
  violence bonus of 0.5, a single Sexual entry of severity 3 is rejected with the
  Violence reason and the score 1.5: a Sexual severity of 3 or more raises the violence
  score to 1, the bonus makes it 1.5, and the Violence rule comes before the Sexual
  rule.
\<close>

theorem explicit_sexual_reports_violence:
  assumes "violenceBonus rl = Fin (1 / 2)"
  shows "applyModerationRules default_thresholds rl
           [\<lparr>category = ''Sexual'', severity = JNum (Fin 3)\<rparr>]
         = \<lparr>rejected = True, reason = Some (ViolenceDetected (Fin (3 / 2)))\<rparr>"
  using assms
  by (simp add: applyModerationRules_def rule_list_def Let_def some_at_least_def
      default_thresholds_def detect_sexual3 round_double_values)

theorem explicit_sexual_reports_violence_witness:
  "applyModerationRules default_thresholds default_rules
           [\<lparr>category = ''Sexual'', severity = JNum (Fin 3)\<rparr>]
         = \<lparr>rejected = True, reason = Some (ViolenceDetected (Fin (3 / 2)))\<rparr>"
  by (rule explicit_sexual_reports_violence) (simp add: default_rules_def)

text \<open>
  C3 as stated fails: on that list the outcome is a rejection whose reason is not the
  explicit-sexual-content reason.
\<close>

theorem sexual_reason_counterexample:
  "sexual default_thresholds = Fin 3
   \<and> rejected (applyModerationRules default_thresholds default_rules
        [\<lparr>category = ''Sexual'', severity = JNum (Fin 3)\<rparr>])
   \<and> reason (applyModerationRules default_thresholds default_rules
        [\<lparr>category = ''Sexual'', severity = JNum (Fin 3)\<rparr>]) \<noteq> Some SexualTooExplicit"
  by (simp add: applyModerationRules_def rule_list_def Let_def some_at_least_def
      default_thresholds_def default_rules_def detect_sexual3 round_double_values)

lemma meets_own_threshold_covers:
  assumes "\<not> list_ex (meets_own_threshold th) cats"
  shows "\<not> some_at_least ''Child'' (child th) cats"
    and "\<not> some_at_least ''Hate'' (hate th) cats"
    and "\<not> some_at_least ''SelfHarm'' (selfHarm th) cats"
    and "\<not> some_at_least ''Sexual'' (sexual th) cats"
  using assms
  by (auto simp add: some_at_least_def list_ex_iff meets_own_threshold_def own_threshold_def)

text \<open>
  C4, as the code has it. When no entry's severity meets the threshold of its own
  category, the boosted violence score is below the violence threshold, the boosted
  weapon score is below the weapons threshold, and no enabled compound rule holds, the
  outcome is \<^verbatim>\<open>{ rejected: false, reason: null }\<close>. This holds for every list, every
  threshold configuration and every setting of the flags and bonuses.
\<close>

theorem no_rule_matches_accepted:
  assumes "\<not> list_ex (meets_own_threshold th) cats"
    and "\<not> js_ge (violenceScore (detectWeaponsAndViolence rl cats)) (violence th)"
    and "\<not> js_ge (weaponScore (detectWeaponsAndViolence rl cats)) (weapons th)"
    and "\<not> compound_rule_satisfied th rl cats"
  shows "applyModerationRules th rl cats = \<lparr>rejected = False, reason = None\<rparr>"
  using meets_own_threshold_covers [OF assms(1)] assms(2,3)
  by (simp add: applyModerationRules_def rule_list_def Let_def)

theorem no_rule_matches_accepted_witness:
  "applyModerationRules default_thresholds default_rules
     [\<lparr>category = ''Sexual'', severity = JNum (Fin 2)\<rparr>,
      \<lparr>category = ''Violence'', severity = JNum (Fin 0)\<rparr>]
   = \<lparr>rejected = False, reason = None\<rparr>"
  by (rule no_rule_matches_accepted)
     (simp_all add: meets_own_threshold_def own_threshold_def default_thresholds_def
        default_rules_def detectWeaponsAndViolence_def detect_step_def js_max_def or_zero_def
        compound_rule_satisfied_def rule_list_def Let_def some_at_least_def)

text \<open>
  C4 as stated fails. With the sexual threshold at 4 and everything else as configured,
  a single Sexual entry of severity 3 is below its own threshold and satisfies no
  compound rule, yet the boosted violence score 1.5 reaches the violence threshold 1
  and the list is rejected.
\<close>

theorem boosted_score_rejects_counterexample:
  "\<not> list_ex (meets_own_threshold (default_thresholds\<lparr>sexual := Fin 4\<rparr>))
        [\<lparr>category = ''Sexual'', severity = JNum (Fin 3)\<rparr>]
   \<and> \<not> compound_rule_satisfied (default_thresholds\<lparr>sexual := Fin 4\<rparr>) default_rules
        [\<lparr>category = ''Sexual'', severity = JNum (Fin 3)\<rparr>]
   \<and> applyModerationRules (default_thresholds\<lparr>sexual := Fin 4\<rparr>) default_rules
        [\<lparr>category = ''Sexual'', severity = JNum (Fin 3)\<rparr>]
      = \<lparr>rejected = True, reason = Some (ViolenceDetected (Fin (3 / 2)))\<rparr>"
  by (simp add: meets_own_threshold_def own_threshold_def default_thresholds_def
        default_rules_def detect_sexual3 round_double_values
        compound_rule_satisfied_def rule_list_def Let_def some_at_least_def
        applyModerationRules_def)

section \<open>The aggregate score\<close>

lemma contribution_finite:
  "finite_if_number c \<Longrightarrow> contribution c = Fin (fin_severity c)"
  by (cases "severity c" rule: is_number.cases)
     (auto simp add: contribution_def fin_severity_def finite_if_number_def
        split: jsnum.splits)

lemma fold_add_foldl:
  "fold (\<lambda>c acc. js_add acc (contribution c)) cats a = foldl js_add a (map contribution cats)"
  by (induction cats arbitrary: a) simp_all

lemma calculateAIScore_double_mean:
  "cats \<noteq> [] \<Longrightarrow>
   calculateAIScore cats =
     (if double_mean (map contribution cats) = NaN then Fin 0
      else double_mean (map contribution cats))"
  by (simp add: calculateAIScore_def Let_def double_mean_def fold_add_foldl)

lemma fold_add_exact:
  "list_all finite_if_number cats \<Longrightarrow> sums_exact a (map fin_severity cats) \<Longrightarrow>
   fold (\<lambda>c acc. js_add acc (contribution c)) cats (Fin a)
     = Fin (a + sum_list (map fin_severity cats))"
proof (induction cats arbitrary: a)
  case Nil
  show ?case by simp
next
  case (Cons c cs)
  then show ?case by (simp add: contribution_finite is_double_def add.assoc)
qed

lemma calculateAIScore_exact_mean:
  assumes "cats \<noteq> []" and "list_all finite_if_number cats"
    and "sums_exact 0 (map fin_severity cats)" and "is_double (arithmetic_mean cats)"
  shows "calculateAIScore cats = Fin (arithmetic_mean cats)"
proof -
  have "fold (\<lambda>c acc. js_add acc (contribution c)) cats (Fin 0)
          = Fin (sum_list (map fin_severity cats))"
    using fold_add_exact [OF assms(2,3)] by simp
  moreover have "round_double (sum_list (map fin_severity cats) / of_nat (length cats))
          = Fin (arithmetic_mean cats)"
    using assms(4) by (simp add: is_double_def arithmetic_mean_def)
  ultimately show ?thesis
    using assms(1) by (simp add: calculateAIScore_def Let_def)
qed

lemma calculateAIScore_not_NaN: "calculateAIScore cats \<noteq> NaN"
  by (simp add: calculateAIScore_def Let_def)

lemma js_add_not_below_zero:
  "\<not> js_gt (Fin 0) a \<Longrightarrow> \<not> js_gt (Fin 0) b \<Longrightarrow> \<not> js_gt (Fin 0) (js_add a b)"
  by (cases a; cases b) (auto simp add: not_less round_double_not_below_zero)

lemma contribution_not_below_zero:
  "not_negative c \<Longrightarrow> \<not> js_gt (Fin 0) (contribution c)"
  by (cases "severity c") (auto simp add: contribution_def not_negative_def)

lemma fold_add_not_below_zero:
  "list_all not_negative cats \<Longrightarrow> \<not> js_gt (Fin 0) acc \<Longrightarrow>
   \<not> js_gt (Fin 0) (fold (\<lambda>c acc. js_add acc (contribution c)) cats acc)"
  by (induction cats arbitrary: acc)
     (simp_all add: js_add_not_below_zero contribution_not_below_zero)

lemma div_length_not_below_zero:
  "\<not> js_gt (Fin 0) a \<Longrightarrow> \<not> js_gt (Fin 0) (js_div_length a n)"
  by (cases a) (auto simp add: not_less round_double_not_below_zero)

lemma not_below_zero_ge: "\<not> js_gt (Fin 0) a \<Longrightarrow> a \<noteq> NaN \<Longrightarrow> js_ge a (Fin 0)"
  by (cases a) auto

text \<open>
  C5, as the code has it. The score of the empty list is 0, and no list gives NaN. The
  score of a non-empty list is the mean of the severities in double arithmetic: the
  severities added from the left, each sum rounded, and the total divided by the length
  and rounded, an entry whose severity is not a number counting as 0 in the sum and as
  one entry in the length; 0 stands in for a mean that is NaN. When every severity that
  is a number is finite and neither a sum nor the quotient is rounded, this is the
  arithmetic mean. When no severity is a number below 0, the score is at least 0.
\<close>

theorem ai_score_is_mean:
  "calculateAIScore [] = Fin 0
   \<and> calculateAIScore cats \<noteq> NaN
   \<and> (cats \<noteq> [] \<longrightarrow>
        calculateAIScore cats =
          (if double_mean (map contribution cats) = NaN then Fin 0
           else double_mean (map contribution cats)))
   \<and> (cats \<noteq> [] \<and> list_all finite_if_number cats
        \<and> sums_exact 0 (map fin_severity cats) \<and> is_double (arithmetic_mean cats) \<longrightarrow>
        calculateAIScore cats = Fin (arithmetic_mean cats))
   \<and> (list_all not_negative cats \<longrightarrow> js_ge (calculateAIScore cats) (Fin 0))"
proof (intro conjI impI)
  show "calculateAIScore [] = Fin 0" by (simp add: calculateAIScore_def)
  show "calculateAIScore cats \<noteq> NaN" by (rule calculateAIScore_not_NaN)
next
  assume "cats \<noteq> []"
  then show "calculateAIScore cats =
          (if double_mean (map contribution cats) = NaN then Fin 0
           else double_mean (map contribution cats))"
    by (rule calculateAIScore_double_mean)
next
  assume "cats \<noteq> [] \<and> list_all finite_if_number cats
        \<and> sums_exact 0 (map fin_severity cats) \<and> is_double (arithmetic_mean cats)"
  then show "calculateAIScore cats = Fin (arithmetic_mean cats)"
    by (intro calculateAIScore_exact_mean) simp_all
next
  assume nn: "list_all not_negative cats"
  show "js_ge (calculateAIScore cats) (Fin 0)"
  proof (cases "cats = []")
    case True
    then show ?thesis by (simp add: calculateAIScore_def)
  next
    case False
    have "\<not> js_gt (Fin 0)
            (js_div_length (fold (\<lambda>c acc. js_add acc (contribution c)) cats (Fin 0))
               (length cats))"
      by (intro div_length_not_below_zero fold_add_not_below_zero nn) simp
    then show ?thesis
      using False by (simp add: calculateAIScore_def Let_def not_below_zero_ge)
  qed
qed

theorem ai_score_is_mean_witness:
  "calculateAIScore [\<lparr>category = ''Hate'', severity = JNum (Fin 4)\<rparr>,
                     \<lparr>category = ''Child'', severity = JOther NaN False\<rparr>,
                     \<lparr>category = ''Sexual'', severity = JNum (Fin 2)\<rparr>] = Fin 2
   \<and> js_ge (calculateAIScore [\<lparr>category = ''Hate'', severity = JNum (Fin 4)\<rparr>,
                     \<lparr>category = ''Child'', severity = JOther NaN False\<rparr>,
                     \<lparr>category = ''Sexual'', severity = JNum (Fin 2)\<rparr>]) (Fin 0)"
  using ai_score_is_mean [of "[\<lparr>category = ''Hate'', severity = JNum (Fin 4)\<rparr>,
                     \<lparr>category = ''Child'', severity = JOther NaN False\<rparr>,
                     \<lparr>category = ''Sexual'', severity = JNum (Fin 2)\<rparr>]"]
  by (simp add: finite_if_number_def not_negative_def arithmetic_mean_def fin_severity_def
      is_double_def double_mean_def contribution_def round_double_values)

text \<open>
  C5 as stated fails. The score of a list whose only severity is -1 is -1, which is
  below 0. The score of two severities of \<open>2 ^ 1023\<close> is Infinity, their sum being beyond
  the largest double, while their arithmetic mean is \<open>2 ^ 1023\<close>.
\<close>

theorem negative_mean_counterexample:
  "calculateAIScore [\<lparr>category = ''Violence'', severity = JNum (Fin (- 1))\<rparr>] = Fin (- 1)
   \<and> js_gt (Fin 0)
        (calculateAIScore [\<lparr>category = ''Violence'', severity = JNum (Fin (- 1))\<rparr>])
   \<and> calculateAIScore [\<lparr>category = ''Violence'', severity = JNum (Fin (2 ^ 1023))\<rparr>,
                        \<lparr>category = ''Hate'', severity = JNum (Fin (2 ^ 1023))\<rparr>] = PInf
   \<and> arithmetic_mean [\<lparr>category = ''Violence'', severity = JNum (Fin (2 ^ 1023))\<rparr>,
                        \<lparr>category = ''Hate'', severity = JNum (Fin (2 ^ 1023))\<rparr>] = 2 ^ 1023"
proof -
  have big: "round_double (2 ^ 1023) = Fin (2 ^ 1023)"
    by (rule round_double_power2) simp_all
  have over: "round_double (2 ^ 1023 + 2 ^ 1023) = PInf"
    by (rule round_double_overflow) simp
  have "js_add (js_add (Fin 0) (Fin (2 ^ 1023))) (Fin (2 ^ 1023)) = PInf"
    by (simp only: js_add.simps add_0 big over)
  then have "calculateAIScore [\<lparr>category = ''Violence'', severity = JNum (Fin (2 ^ 1023))\<rparr>,
                        \<lparr>category = ''Hate'', severity = JNum (Fin (2 ^ 1023))\<rparr>] = PInf"
    by (simp add: calculateAIScore_def contribution_def del: js_add.simps)
  moreover have "arithmetic_mean
       [\<lparr>category = ''Violence'', severity = JNum (Fin (2 ^ 1023))\<rparr>,
        \<lparr>category = ''Hate'', severity = JNum (Fin (2 ^ 1023))\<rparr>] = 2 ^ 1023"
    by (simp add: arithmetic_mean_def fin_severity_def)
  ultimately show ?thesis
    by (simp add: calculateAIScore_def contribution_def round_double_values)
qed

section \<open>The weapon and violence scores\<close>

lemma max_severity_where_nonneg: "0 \<le> max_severity_where P cats"
  by (simp add: max_severity_where_def)

lemma max_severity_where_Nil: "max_severity_where P [] = 0"
  by (simp add: max_severity_where_def)

lemma max_severity_where_Cons:
  "max_severity_where P (c # cs) =
     (if P c then max (fin_severity c) (max_severity_where P cs) else max_severity_where P cs)"
proof (cases "P c")
  case True
  have ins: "Max (insert x (insert 0 (set xs))) = max x (Max (insert 0 (set xs)))"
    for x :: rat and xs
    by (intro Max_insert) simp_all
  have "max_severity_where P (c # cs)
          = Max (insert (fin_severity c) (insert 0 (set (map fin_severity (filter P cs)))))"
    using True by (simp add: max_severity_where_def insert_commute)
  also have "\<dots> = max (fin_severity c) (Max (insert 0 (set (map fin_severity (filter P cs)))))"
    by (rule ins)
  finally show ?thesis
    using True by (simp add: max_severity_where_def)
next
  case False
  then show ?thesis by (simp add: max_severity_where_def)
qed

lemma explicit_sexual_Cons:
  "explicit_sexual (c # cs) \<longleftrightarrow>
     (category c = ''Sexual'' \<and> 3 \<le> fin_severity c) \<or> explicit_sexual cs"
  by (simp add: explicit_sexual_def)

lemma js_max_Fin: "js_max (Fin a) (Fin b) = Fin (max a b)"
  by (simp add: js_max_def max_def)

lemma detect_step_finite:
  assumes "finite_number c"
  shows "detect_step c (Fin w, Fin v) = (Fin (weapon_step c w), Fin (violence_step c v))"
proof -
  from assms obtain x where x: "severity c = JNum (Fin x)"
    by (auto simp add: finite_number_def split: jsval.splits jsnum.splits)
  then have fs: "fin_severity c = x" by (simp add: fin_severity_def)
  have oz: "to_number (or_zero (JNum (Fin x))) = Fin x"
    by (simp add: or_zero_def)
  show ?thesis
    by (auto simp add: detect_step_def Let_def weapon_step_def violence_step_def
        weapon_proxy_def x fs oz js_max_Fin)
qed

lemma detect_step_unscored:
  assumes "\<not> scored_category c"
  shows "detect_step c (Fin w, Fin v) = (Fin (weapon_step c w), Fin (violence_step c v))"
  using assms
  by (simp add: detect_step_def Let_def weapon_step_def violence_step_def weapon_proxy_def
      scored_category_def)

lemma fold_detect_split:
  "scored_entries_finite cats \<Longrightarrow>
   fold detect_step cats (Fin w, Fin v) =
     (Fin (fold weapon_step cats w), Fin (fold violence_step cats v))"
proof (induction cats arbitrary: w v)
  case Nil
  show ?case by simp
next
  case (Cons c cs)
  have step: "detect_step c (Fin w, Fin v) = (Fin (weapon_step c w), Fin (violence_step c v))"
  proof (cases "scored_category c")
    case True
    with Cons.prems have "finite_number c" by (simp add: scored_entries_finite_def)
    then show ?thesis by (rule detect_step_finite)
  next
    case False
    then show ?thesis by (rule detect_step_unscored)
  qed
  from Cons.prems have "scored_entries_finite cs"
    by (simp add: scored_entries_finite_def split: if_splits)
  then show ?case by (simp add: step Cons.IH)
qed

lemma fold_weapon_step:
  "0 \<le> w \<Longrightarrow> fold weapon_step cats w = max w (weapon_base cats)"
proof (induction cats arbitrary: w)
  case Nil
  then show ?case by (simp add: weapon_base_def max_severity_where_Nil)
next
  case (Cons c cs)
  have step: "0 \<le> weapon_step c w"
    using Cons.prems by (simp add: weapon_step_def max.coboundedI1)
  show ?case
    by (simp add: Cons.IH [OF step])
       (simp add: weapon_step_def weapon_base_def max_severity_where_Cons max.assoc)
qed

lemma fold_violence_step:
  "0 \<le> v \<Longrightarrow> fold violence_step cats v = max v (violence_at_least_one cats)"
proof (induction cats arbitrary: v)
  case Nil
  then show ?case
    by (simp add: violence_at_least_one_def max_severity_where_Nil explicit_sexual_def)
next
  case (Cons c cs)
  define M where "M = max_severity_where (\<lambda>c. category c = ''Violence'') cs"
  define E :: rat where "E = (if explicit_sexual cs then 1 else 0)"
  have M: "0 \<le> M" unfolding M_def by (rule max_severity_where_nonneg)
  have E: "E = 0 \<or> E = 1" by (simp add: E_def)
  have tail: "violence_at_least_one cs = max M E"
    by (simp add: violence_at_least_one_def M_def E_def)
  have step: "0 \<le> violence_step c v"
    using Cons.prems by (simp add: violence_step_def max.coboundedI1)
  have "fold violence_step (c # cs) v = max (violence_step c v) (max M E)"
    using Cons.IH [OF step] by (simp add: tail)
  also have "\<dots> = max v (violence_at_least_one (c # cs))"
  proof -
    consider (violence) "category c = ''Violence''"
      | (sexual) "category c = ''Sexual''" "3 \<le> fin_severity c"
      | (other) "category c \<noteq> ''Violence''"
          "\<not> (category c = ''Sexual'' \<and> 3 \<le> fin_severity c)"
      by blast
    then show ?thesis
    proof cases
      case violence
      then have "violence_step c v = max v (fin_severity c)"
        and "violence_at_least_one (c # cs) = max (max (fin_severity c) M) E"
        by (simp_all add: violence_step_def violence_at_least_one_def max_severity_where_Cons
            explicit_sexual_Cons M_def E_def)
      then show ?thesis by (simp add: max.assoc)
    next
      case sexual
      then have "violence_step c v = max v 1"
        and "violence_at_least_one (c # cs) = max M 1"
        by (simp_all add: violence_step_def violence_at_least_one_def max_severity_where_Cons
            explicit_sexual_Cons M_def)
      moreover have "max 1 (max M E) = max M 1"
        using M E by (auto simp add: max_def)
      ultimately show ?thesis by (simp add: max.assoc)
    next
      case other
      then have "violence_step c v = v"
        and "violence_at_least_one (c # cs) = max M E"
        by (auto simp add: violence_step_def violence_at_least_one_def max_severity_where_Cons
            explicit_sexual_Cons M_def E_def)
      then show ?thesis by simp
    qed
  qed
  finally show ?case .
qed

lemma fold_detect_finite:
  assumes "scored_entries_finite cats"
  shows "fold detect_step cats (Fin 0, Fin 0) =
     (Fin (weapon_base cats), Fin (violence_at_least_one cats))"
proof -
  have "0 \<le> weapon_base cats" and "0 \<le> violence_at_least_one cats"
    by (simp_all add: weapon_base_def violence_at_least_one_def max_severity_where_nonneg
        max.coboundedI1)
  then show ?thesis
    by (simp add: fold_detect_split [OF assms] fold_weapon_step fold_violence_step max_def)
qed

text \<open>
  C6, as the code has it. On a list whose Violence, Hate, SelfHarm and Sexual entries
  have finite numbers as severities: the violence score is the largest of 0 and the
  severities of the Violence entries, raised to 1 (not increased by 1) if a Sexual entry
  has severity 3 or more; the weapon score is the largest severity among the Hate and
  SelfHarm entries of severity 1 or more, 0 when there is none; and each score that is
  not 0 has its bonus added, in one double addition.
\<close>

theorem detect_scores:
  assumes "scored_entries_finite cats"
  shows "violenceScore (detectWeaponsAndViolence rl cats)
           = with_bonus (violenceBonus rl) (violence_at_least_one cats)
       \<and> weaponScore (detectWeaponsAndViolence rl cats)
           = with_bonus (weaponBonus rl) (weapon_base cats)"
proof -
  have "0 \<le> weapon_base cats" and "0 \<le> violence_at_least_one cats"
    by (simp_all add: weapon_base_def violence_at_least_one_def max_severity_where_nonneg
        max.coboundedI1)
  then show ?thesis
    by (auto simp add: detectWeaponsAndViolence_def fold_detect_finite [OF assms]
        with_bonus_def)
qed

theorem detect_scores_witness:
  "violenceScore (detectWeaponsAndViolence default_rules
         [\<lparr>category = ''Violence'', severity = JNum (Fin 4)\<rparr>,
          \<lparr>category = ''Child'', severity = JOther NaN False\<rparr>,
          \<lparr>category = ''Hate'', severity = JNum (Fin 2)\<rparr>,
          \<lparr>category = ''Sexual'', severity = JNum (Fin 3)\<rparr>]) = Fin (9 / 2)
   \<and> weaponScore (detectWeaponsAndViolence default_rules
         [\<lparr>category = ''Violence'', severity = JNum (Fin 4)\<rparr>,
          \<lparr>category = ''Child'', severity = JOther NaN False\<rparr>,
          \<lparr>category = ''Hate'', severity = JNum (Fin 2)\<rparr>,
          \<lparr>category = ''Sexual'', severity = JNum (Fin 3)\<rparr>]) = Fin (5 / 2)"
  using detect_scores [of "[\<lparr>category = ''Violence'', severity = JNum (Fin 4)\<rparr>,
          \<lparr>category = ''Child'', severity = JOther NaN False\<rparr>,
          \<lparr>category = ''Hate'', severity = JNum (Fin 2)\<rparr>,
          \<lparr>category = ''Sexual'', severity = JNum (Fin 3)\<rparr>]" default_rules]
  by (simp add: scored_entries_finite_def scored_category_def finite_number_def
      default_rules_def with_bonus_def violence_at_least_one_def weapon_base_def
      max_severity_where_def explicit_sexual_def fin_severity_def weapon_proxy_def
      round_double_values)

text \<open>
  C6 as stated fails. For a Violence entry of severity 4 and a Sexual entry of severity
  3 the code's violence score is 4.5, while the largest Violence severity plus 1, with
  the bonus, is 5.5. For a single Violence entry of severity -1 the code's violence
  score is 0, while the largest Violence severity, with the bonus, is -0.5.
\<close>

theorem violence_plus_one_counterexample:
  "violenceScore (detectWeaponsAndViolence default_rules
         [\<lparr>category = ''Violence'', severity = JNum (Fin 4)\<rparr>,
          \<lparr>category = ''Sexual'', severity = JNum (Fin 3)\<rparr>]) = Fin (9 / 2)
   \<and> with_bonus (violenceBonus default_rules) (violence_plus_one
         [\<lparr>category = ''Violence'', severity = JNum (Fin 4)\<rparr>,
          \<lparr>category = ''Sexual'', severity = JNum (Fin 3)\<rparr>]) = Fin (11 / 2)
   \<and> violenceScore (detectWeaponsAndViolence default_rules
         [\<lparr>category = ''Violence'', severity = JNum (Fin (- 1))\<rparr>]) = Fin 0
   \<and> with_bonus (violenceBonus default_rules) (violence_plus_one
         [\<lparr>category = ''Violence'', severity = JNum (Fin (- 1))\<rparr>]) = Fin (- (1 / 2))"
  by (simp add: detectWeaponsAndViolence_def detect_step_def js_max_def or_zero_def
      default_rules_def with_bonus_def violence_plus_one_def max_among_def
      explicit_sexual_def fin_severity_def round_double_values)

section \<open>Failure of the classifier call\<close>

text \<open>
  Every failure that is thrown is caught by \<^verbatim>\<open>moderateImage\<close> and answered with the
  fallback: an open breaker, the breaker's timeout, a request without response, a status
  other than 200, a body that is \<^verbatim>\<open>null\<close> or \<^verbatim>\<open>undefined\<close>, and a \<^verbatim>\<open>categoriesAnalysis\<close>
  the code cannot traverse.
\<close>

lemma fire_throws:
  assumes "fst (up s buffer) = ShortCircuited \<or> fst (up s buffer) = TimedOut
      \<or> fst (up s buffer) = Ran NoReply
      \<or> (\<exists>status body. fst (up s buffer) = Ran (Reply status body) \<and> status \<noteq> 200)
      \<or> fst (up s buffer) = Ran (Reply 200 NoData)
      \<or> fst (up s buffer) = Ran (Reply 200 (Data Unusable))"
  shows "\<exists>e. fst (fire up th rl s buffer) = Inl e"
  using assms
  by (cases "up s buffer") (auto simp add: fire_def callAzureAPI_def)

lemma thrown_failure_gives_fallback:
  assumes "fst (up s buffer) = ShortCircuited \<or> fst (up s buffer) = TimedOut
      \<or> fst (up s buffer) = Ran NoReply
      \<or> (\<exists>status body. fst (up s buffer) = Ran (Reply status body) \<and> status \<noteq> 200)
      \<or> fst (up s buffer) = Ran (Reply 200 NoData)
      \<or> fst (up s buffer) = Ran (Reply 200 (Data Unusable))"
  shows "fst (moderateImage up th rl s buffer) =
           \<lparr>verdict = Rejected, categories = [], rejectionReason = Some ServiceUnavailable,
            ai_score = Fin 0\<rparr>"
proof -
  from assms have "\<exists>e. fst (fire up th rl s buffer) = Inl e"
    by (rule fire_throws [of up s buffer th rl])
  then obtain e where "fst (fire up th rl s buffer) = Inl e" ..
  then show ?thesis
    by (cases "fire up th rl s buffer") (simp add: moderateImage_def fallbackModeration_def)
qed

text \<open>
  C7. The claim asks for the fallback rejection on every failure of the classifier
  call, a malformed response among them. The code misses one: a reply with status 200
  whose body has no \<^verbatim>\<open>categoriesAnalysis\<close> is read as an empty category list, nothing is
  thrown, and \<^verbatim>\<open>moderateImage\<close> returns the verdict accepted.
\<close>

theorem missing_analysis_accepted:
  "moderateImage (\<lambda>s b. (Ran (Reply 200 (Data Absent)), Suc s)) default_thresholds default_rules
          (0 :: nat) ''image''
     = (\<lparr>verdict = Accepted, categories = [], rejectionReason = None, ai_score = Fin 0\<rparr>, 1)"
  by (simp add: moderateImage_def fire_def callAzureAPI_def analysed_def applyModerationRules_def
      rule_list_def Let_def some_at_least_def detectWeaponsAndViolence_def calculateAIScore_def
      default_thresholds_def default_rules_def)

section \<open>Video moderation: properties\<close>

text \<open>
  C10. Without thumbnails \<^verbatim>\<open>moderateVideo\<close> makes no call, leaves the environment as it
  was, and returns the verdict accepted with no categories and the score 0.
\<close>

theorem empty_video_accepted:
  "moderateVideo up th rl s [] =
     (\<lparr>verdict = Accepted, categories = [], rejectionReason = None, ai_score = Fin 0\<rparr>, [], s)"
  by (simp add: moderateVideo_def calculateVideoVerdict_def calculateAIScore_def)
















end
